theory Spec2Isabelle
  imports Main
begin

section \<open>The background resolver of \<^verbatim>\<open>src/lib/backgroundContext.tsx\<close>\<close>

text \<open>
  The module keeps one URL in three tiers: a module-level variable, one key of
  \<^verbatim>\<open>sessionStorage\<close> and one key of \<^verbatim>\<open>localStorage\<close>. Everything the functions touch
  outside their arguments is a field of the record \<open>world\<close>: the two storages, the
  module variable, the clock behind \<^verbatim>\<open>Date.now()\<close>, the image backend behind
  \<^verbatim>\<open>new Image()\<close>, the console, and the two \<^verbatim>\<open>useState\<close> cells of the provider.
  Each function of the source is a function on worlds with the same name.
\<close>

subsection \<open>Constants and data\<close>

definition BG_EXPIRE_TIME :: int where
  "BG_EXPIRE_TIME = 24 * 60 * 60 * 1000"

record BackgroundCache =
  url :: string
  timestamp :: int

datatype error = SecurityError | QuotaExceededError | SyntaxError | ReferenceError

text \<open>
  The text kept under \<^verbatim>\<open>BG_CACHE_KEY\<close>, by what \<^verbatim>\<open>JSON.parse\<close> makes of it:
  \<open>Stringified d\<close> is the text \<^verbatim>\<open>JSON.stringify(d)\<close> of a record \<open>d\<close> of the interface
  \<^verbatim>\<open>BackgroundCache\<close> (a string and an integral number of milliseconds), which parses
  back to \<open>d\<close>; \<open>Malformed s\<close> is a text \<open>s\<close> on which line 60 throws (\<open>Malformed []\<close>
  is the empty string, which line 58 already treats as absent). Texts that parse to other
  JSON values are outside the model.
\<close>

datatype cache_text = Malformed string | Stringified BackgroundCache

definition JSON_stringify :: "BackgroundCache \<Rightarrow> cache_text" where
  "JSON_stringify d = Stringified d"

fun JSON_parse :: "cache_text \<Rightarrow> error + BackgroundCache" where
  "JSON_parse (Malformed s) = Inl SyntaxError"
| "JSON_parse (Stringified d) = Inr d"

text \<open>
  A Web Storage object, seen through the single key the module uses on it. Access to the
  storage may be refused altogether (every call throws), and \<^verbatim>\<open>setItem\<close> may exceed the
  quota; these are the failures the \<^verbatim>\<open>try\<close> blocks of the source catch.
\<close>

record 'v storage =
  item :: "'v option"
  unavailable :: bool
  quota_exceeded :: bool

definition getItem :: "'v storage \<Rightarrow> error + 'v option" where
  "getItem st = (if unavailable st then Inl SecurityError else Inr (item st))"

definition setItem :: "'v storage \<Rightarrow> 'v \<Rightarrow> error + 'v storage" where
  "setItem st v =
     (if unavailable st then Inl SecurityError
      else if quota_exceeded st then Inl QuotaExceededError
      else Inr (st\<lparr>item := Some v\<rparr>))"

definition removeItem :: "'v storage \<Rightarrow> error + 'v storage" where
  "removeItem st = (if unavailable st then Inl SecurityError else Inr (st\<lparr>item := None\<rparr>))"

text \<open>
  What happens first once \<^verbatim>\<open>img.src\<close> is assigned: the \<^verbatim>\<open>onload\<close> callback, the
  \<^verbatim>\<open>onerror\<close> callback, or the \<^verbatim>\<open>BG_LOAD_TIMEOUT\<close> timer.
\<close>

datatype img_event = Onload | Onerror | Timeout

record world =
  has_window :: bool
  has_Image :: bool
  image :: "string \<Rightarrow> img_event"
  requests :: "string list"
  clock :: "nat \<Rightarrow> int"
  ticks :: nat
  console :: "string list"
  globalBackgroundUrl :: "string option"
  sessionStorage :: "string storage"
  localStorage :: "cache_text storage"
  backgroundUrl :: string
  isLoaded :: bool

text \<open>
  \<open>has_window\<close> is \<^verbatim>\<open>typeof window !== 'undefined'\<close>; \<open>has_Image\<close> says that the global
  \<^verbatim>\<open>Image\<close> constructor exists. \<open>clock w n\<close> is the value of the \<open>n\<close>-th call of
  \<^verbatim>\<open>Date.now()\<close> and \<open>ticks\<close> counts the calls made so far. \<open>requests\<close> lists the URLs
  assigned to \<^verbatim>\<open>img.src\<close> for loading, \<open>console\<close> the messages of \<^verbatim>\<open>console.error\<close>.
\<close>

definition Date_now :: "world \<Rightarrow> int \<times> world" where
  "Date_now w = (clock w (ticks w), w\<lparr>ticks := Suc (ticks w)\<rparr>)"

text \<open>JavaScript truthiness of a value of type \<^verbatim>\<open>string | null\<close>.\<close>

fun truthy :: "string option \<Rightarrow> bool" where
  "truthy None = False"
| "truthy (Some s) = (s \<noteq> [])"

fun string_of :: "string option \<Rightarrow> string" where
  "string_of None = []"
| "string_of (Some s) = s"

text \<open>
  The decimal text of an integer, as a template literal renders a number of the size of a
  millisecond timestamp (JavaScript switches to exponent notation only from \<open>10^21\<close>).
\<close>

fun digits :: "nat \<Rightarrow> string" where
  "digits n =
     (if n < 10 then [''0123456789'' ! n]
      else digits (n div 10) @ [''0123456789'' ! (n mod 10)])"

declare digits.simps [simp del]

definition number_toString :: "int \<Rightarrow> string" where
  "number_toString i = (if i < 0 then CHR ''-'' # digits (nat (- i)) else digits (nat i))"

subsection \<open>The three tiers (lines 25 to 86)\<close>

definition getGlobalBackground :: "world \<Rightarrow> string option" where
  "getGlobalBackground w = globalBackgroundUrl w"

definition setGlobalBackground :: "string \<Rightarrow> world \<Rightarrow> world" where
  "setGlobalBackground u w = w\<lparr>globalBackgroundUrl := Some u\<rparr>"

definition getSessionBackground :: "world \<Rightarrow> string option" where
  "getSessionBackground w =
     (if \<not> has_window w then None
      else case getItem (sessionStorage w) of
             Inl e \<Rightarrow> None
           | Inr v \<Rightarrow> v)"

definition setSessionBackground :: "string \<Rightarrow> world \<Rightarrow> world" where
  "setSessionBackground u w =
     (if \<not> has_window w then w
      else case setItem (sessionStorage w) u of
             Inl e \<Rightarrow> w\<lparr>console := console w @ [''Failed to set session background:'']\<rparr>
           | Inr st \<Rightarrow> w\<lparr>sessionStorage := st\<rparr>)"

definition getCachedBackground :: "world \<Rightarrow> string option \<times> world" where
  "getCachedBackground w =
     (if \<not> has_window w then (None, w)
      else case getItem (localStorage w) of
             Inl e \<Rightarrow> (None, w)
           | Inr None \<Rightarrow> (None, w)
           | Inr (Some cached) \<Rightarrow>
               if cached = Malformed [] then (None, w)
               else case JSON_parse cached of
                      Inl e \<Rightarrow> (None, w)
                    | Inr data \<Rightarrow>
                        let (now, w1) = Date_now w in
                        if now - timestamp data > BG_EXPIRE_TIME then
                          (case removeItem (localStorage w1) of
                             Inl e \<Rightarrow> (None, w1)
                           | Inr st \<Rightarrow> (None, w1\<lparr>localStorage := st\<rparr>))
                        else (Some (url data), w1))"

definition setCachedBackground :: "string \<Rightarrow> world \<Rightarrow> world" where
  "setCachedBackground u w =
     (if \<not> has_window w then w
      else let (now, w1) = Date_now w;
               data = \<lparr>url = u, timestamp = now\<rparr>
           in case setItem (localStorage w1) (JSON_stringify data) of
                Inl e \<Rightarrow> w1\<lparr>console := console w1 @ [''Failed to cache background:'']\<rparr>
              | Inr st \<Rightarrow> w1\<lparr>localStorage := st\<rparr>)"

subsection \<open>Generation and validation (lines 88 to 115)\<close>

definition fetchNewBackground :: "world \<Rightarrow> string \<times> world" where
  "fetchNewBackground w =
     (let (timestamp, w1) = Date_now w
      in (''https://loliapi.com/acg/?seed='' @ number_toString timestamp, w1))"

text \<open>
  The promise of \<^verbatim>\<open>preloadImage\<close> rejects when \<^verbatim>\<open>new Image()\<close> throws inside the
  executor; otherwise it resolves with \<open>True\<close> on \<^verbatim>\<open>onload\<close> and with \<open>False\<close> on
  \<^verbatim>\<open>onerror\<close> or when the timer fires first.
\<close>

definition preloadImage :: "string \<Rightarrow> world \<Rightarrow> (error + bool) \<times> world" where
  "preloadImage u w =
     (if \<not> has_Image w then (Inl ReferenceError, w)
      else let w1 = w\<lparr>requests := requests w @ [u]\<rparr>
           in case image w u of
                Onload \<Rightarrow> (Inr True, w1)
              | Onerror \<Rightarrow> (Inr False, w1)
              | Timeout \<Rightarrow> (Inr False, w1))"

subsection \<open>The provider (lines 117 to 190)\<close>

text \<open>
  An asynchronous function either runs to its end or stops at a rejected \<^verbatim>\<open>await\<close> or
  an uncaught exception; in both cases the world it leaves behind is what matters.
\<close>

datatype outcome = Fulfilled world | Rejected error world

fun final :: "outcome \<Rightarrow> world" where
  "final (Fulfilled w) = w"
| "final (Rejected e w) = w"

definition setBackgroundUrl :: "string \<Rightarrow> world \<Rightarrow> world" where
  "setBackgroundUrl u w = w\<lparr>backgroundUrl := u\<rparr>"

definition setIsLoaded :: "bool \<Rightarrow> world \<Rightarrow> world" where
  "setIsLoaded b w = w\<lparr>isLoaded := b\<rparr>"

text \<open>Lines 141 to 152: the persisted tier. The result is \<^verbatim>\<open>finalUrl\<close>.\<close>

definition init_cached :: "world \<Rightarrow> error \<times> world + string \<times> world" where
  "init_cached w =
     (let (cached, w1) = getCachedBackground w in
      if truthy cached then
        (case preloadImage (string_of cached) w1 of
           (Inl e, w2) \<Rightarrow> Inl (e, w2)
         | (Inr isValid, w2) \<Rightarrow>
             if isValid then Inr (string_of cached, w2)
             else (case removeItem (localStorage w2) of
                     Inl e \<Rightarrow> Inl (e, w2)
                   | Inr st \<Rightarrow> Inr ([], w2\<lparr>localStorage := st\<rparr>)))
      else Inr ([], w1))"

text \<open>Lines 155 to 162: generation, only when \<^verbatim>\<open>finalUrl\<close> is still empty.\<close>

definition init_generate :: "string \<Rightarrow> world \<Rightarrow> error \<times> world + string \<times> world" where
  "init_generate finalUrl w =
     (if finalUrl = [] then
        (let (newUrl, w1) = fetchNewBackground w in
         case preloadImage newUrl w1 of
           (Inl e, w2) \<Rightarrow> Inl (e, w2)
         | (Inr isValid, w2) \<Rightarrow>
             if isValid then Inr (newUrl, setCachedBackground newUrl w2)
             else Inr (finalUrl, w2))
      else Inr (finalUrl, w))"

text \<open>Lines 165 to 169: the final URL goes to the state, the variable and the session.\<close>

definition init_commit :: "string \<Rightarrow> world \<Rightarrow> world" where
  "init_commit finalUrl w =
     (if finalUrl \<noteq> [] then
        setSessionBackground finalUrl (setGlobalBackground finalUrl (setBackgroundUrl finalUrl w))
      else w)"

definition initBackground :: "world \<Rightarrow> outcome" where
  "initBackground w =
     (let globalUrl = getGlobalBackground w in
      if truthy globalUrl then Fulfilled (setBackgroundUrl (string_of globalUrl) w)
      else
        let sessionUrl = getSessionBackground w in
        if truthy sessionUrl then
          Fulfilled (setGlobalBackground (string_of sessionUrl)
                      (setBackgroundUrl (string_of sessionUrl) w))
        else
          case init_cached w of
            Inl (e, w1) \<Rightarrow> Rejected e w1
          | Inr (finalUrl, w1) \<Rightarrow>
              (case init_generate finalUrl w1 of
                 Inl (e, w2) \<Rightarrow> Rejected e w2
               | Inr (finalUrl', w2) \<Rightarrow> Fulfilled (init_commit finalUrl' w2)))"

definition setLoaded :: "world \<Rightarrow> world" where
  "setLoaded w = setIsLoaded True w"

definition refreshBackground :: "world \<Rightarrow> outcome" where
  "refreshBackground w =
     (let (newUrl, w1) = fetchNewBackground w in
      case preloadImage newUrl w1 of
        (Inl e, w2) \<Rightarrow> Rejected e w2
      | (Inr isValid, w2) \<Rightarrow>
          if isValid then
            Fulfilled (setIsLoaded False
                        (setCachedBackground newUrl
                          (setSessionBackground newUrl
                            (setGlobalBackground newUrl
                              (setBackgroundUrl newUrl w2)))))
          else Fulfilled w2)"

text \<open>
  A provider starts with the two \<^verbatim>\<open>useState\<close> defaults of lines 118 and 119; its effect
  then runs \<^verbatim>\<open>initBackground\<close> once.
\<close>

definition BackgroundProvider :: "world \<Rightarrow> world" where
  "BackgroundProvider w = w\<lparr>backgroundUrl := [], isLoaded := False\<rparr>"

datatype action = Effect | SetLoaded | RefreshBackground

fun step :: "action \<Rightarrow> world \<Rightarrow> world" where
  "step Effect w = final (initBackground w)"
| "step SetLoaded w = setLoaded w"
| "step RefreshBackground w = final (refreshBackground w)"

subsection \<open>Vocabulary of the properties\<close>

text \<open>
  A write to a storage goes through when a window exists, the storage can be accessed and
  its quota is not exceeded: the case in which \<^verbatim>\<open>setItem\<close> returns instead of throwing.
\<close>

definition writable :: "world \<Rightarrow> 'v storage \<Rightarrow> bool" where
  "writable w st = (has_window w \<and> \<not> unavailable st \<and> \<not> quota_exceeded st)"

text \<open>Preload validation of a URL succeeds: the promise resolves with \<^verbatim>\<open>true\<close>.\<close>

definition validates :: "string \<Rightarrow> world \<Rightarrow> bool" where
  "validates u w = (fst (preloadImage u w) = Inr True)"

text \<open>The URL that \<^verbatim>\<open>fetchNewBackground\<close> builds from a clock value.\<close>

definition seed_url :: "int \<Rightarrow> string" where
  "seed_url t = ''https://loliapi.com/acg/?seed='' @ number_toString t"

text \<open>The URL of the record in the persisted tier, if the tier holds a record.\<close>

definition persisted_url :: "cache_text option \<Rightarrow> string option" where
  "persisted_url t = (case t of Some (Stringified d) \<Rightarrow> Some (url d) | _ \<Rightarrow> None)"

text \<open>
  Going from \<open>w\<close> to \<open>w'\<close> has not written \<open>u\<close> to a tier: a tier that holds \<open>u\<close>
  in \<open>w'\<close> is as it was in \<open>w\<close>.
\<close>

definition not_written :: "string \<Rightarrow> world \<Rightarrow> world \<Rightarrow> bool" where
  "not_written u w w' =
     ((globalBackgroundUrl w' = Some u \<longrightarrow> globalBackgroundUrl w = Some u) \<and>
      (item (sessionStorage w') = Some u \<longrightarrow> item (sessionStorage w) = Some u) \<and>
      (persisted_url (item (localStorage w')) = Some u \<longrightarrow>
         item (localStorage w') = item (localStorage w)))"

text \<open>The URLs preloaded on the way from \<open>w\<close> to \<open>w'\<close>: the candidates.\<close>

definition preloaded :: "world \<Rightarrow> world \<Rightarrow> string list" where
  "preloaded w w' = drop (length (requests w)) (requests w')"

subsection \<open>Some worlds\<close>

text \<open>
  A page that has just been loaded in a browser: nothing in memory, both storages empty
  and working, every image loads, and the clock advances by half a second per reading.
\<close>

definition page :: world where
  "page = \<lparr>has_window = True, has_Image = True, image = (\<lambda>u. Onload), requests = [],
           clock = (\<lambda>n. 1000 + 500 * int n), ticks = 0, console = [],
           globalBackgroundUrl = None,
           sessionStorage = \<lparr>item = None, unavailable = False, quota_exceeded = False\<rparr>,
           localStorage = \<lparr>item = None, unavailable = False, quota_exceeded = False\<rparr>,
           backgroundUrl = [], isLoaded = False\<rparr>"

text \<open>The same page where both storages refuse every \<^verbatim>\<open>setItem\<close>.\<close>

definition private_page :: world where
  "private_page =
     page\<lparr>sessionStorage := \<lparr>item = None, unavailable = False, quota_exceeded = True\<rparr>,
          localStorage := \<lparr>item = None, unavailable = False, quota_exceeded = True\<rparr>\<rparr>"

text \<open>The same page where no image loads.\<close>

definition offline_page :: world where
  "offline_page = page\<lparr>image := (\<lambda>u. Onerror)\<rparr>"

text \<open>A page of a session that is already locked to a URL.\<close>

definition locked_page :: world where
  "locked_page =
     page\<lparr>sessionStorage :=
            \<lparr>item = Some ''https://loliapi.com/acg/?seed=7'', unavailable = False,
               quota_exceeded = False\<rparr>\<rparr>"

text \<open>The locked session, with a session storage that has run out of quota.\<close>

definition full_session_page :: world where
  "full_session_page =
     page\<lparr>sessionStorage :=
            \<lparr>item = Some ''https://loliapi.com/acg/?seed=7'', unavailable = False,
               quota_exceeded = True\<rparr>\<rparr>"

text \<open>The page on a server or in a test runner: no window and no \<^verbatim>\<open>Image\<close>.\<close>

definition server_page :: world where
  "server_page = locked_page\<lparr>has_window := False, has_Image := False\<rparr>"

text \<open>
  A first page of a new session: the persisted tier holds a record written a second
  before the first clock reading.
\<close>

definition cached_page :: world where
  "cached_page =
     page\<lparr>localStorage :=
            \<lparr>item = Some (Stringified
                      \<lparr>url = ''https://loliapi.com/acg/?seed=7'', timestamp = 0\<rparr>),
               unavailable = False, quota_exceeded = False\<rparr>\<rparr>"

text \<open>The same, with a session storage that refuses every \<^verbatim>\<open>setItem\<close>.\<close>

definition cached_private_page :: world where
  "cached_private_page =
     cached_page\<lparr>sessionStorage :=
                   \<lparr>item = None, unavailable = False, quota_exceeded = True\<rparr>\<rparr>"

text \<open>The same, where the persisted URL no longer loads within the timeout.\<close>

definition stale_page :: world where
  "stale_page =
     cached_page\<lparr>image :=
       (\<lambda>u. if u = ''https://loliapi.com/acg/?seed=7'' then Timeout else Onload)\<rparr>"

text \<open>The persisted record is one millisecond past its day, and exactly one day old.\<close>

definition expired_page :: world where
  "expired_page = cached_page\<lparr>clock := (\<lambda>n. 86400001 + 500 * int n)\<rparr>"

definition day_old_page :: world where
  "day_old_page = cached_page\<lparr>clock := (\<lambda>n. 86400000 + 500 * int n)\<rparr>"

text \<open>Both storages hold something and refuse every access.\<close>

definition blocked_page :: world where
  "blocked_page =
     page\<lparr>sessionStorage :=
            \<lparr>item = Some ''https://loliapi.com/acg/?seed=7'', unavailable = True,
               quota_exceeded = False\<rparr>,
          localStorage :=
            \<lparr>item = Some (Stringified
                      \<lparr>url = ''https://loliapi.com/acg/?seed=7'', timestamp = 0\<rparr>),
               unavailable = True, quota_exceeded = False\<rparr>\<rparr>"

text \<open>The persisted text is not JSON.\<close>

definition garbled_page :: world where
  "garbled_page =
     page\<lparr>localStorage :=
            \<lparr>item = Some (Malformed ''{url:''), unavailable = False,
               quota_exceeded = False\<rparr>\<rparr>"

text \<open>A URL is in memory, respectively in the session, and no image loads.\<close>

definition memory_page :: world where
  "memory_page =
     offline_page\<lparr>globalBackgroundUrl := Some ''https://loliapi.com/acg/?seed=7''\<rparr>"

definition locked_offline_page :: world where
  "locked_offline_page = locked_page\<lparr>image := (\<lambda>u. Onerror)\<rparr>"

text \<open>The caller has reported the image as shown.\<close>

definition shown_page :: world where
  "shown_page = page\<lparr>isLoaded := True\<rparr>"

section \<open>Closed forms of the operations\<close>

lemma number_toString_1000: "number_toString 1000 = ''1000''"
  by (simp add: number_toString_def digits.simps)

lemma number_toString_1500: "number_toString 1500 = ''1500''"
  by (simp add: number_toString_def digits.simps)

lemma BG_EXPIRE_TIME_eq: "BG_EXPIRE_TIME = 86400000"
  by (simp add: BG_EXPIRE_TIME_def)

lemma truthy_string_of: "truthy x \<Longrightarrow> string_of x \<noteq> []"
  by (cases x) simp_all

lemma truthy_Some_string_of: "truthy x \<Longrightarrow> Some (string_of x) = x"
  by (cases x) simp_all

lemma fetchNewBackground_eq:
  "fetchNewBackground w = (seed_url (clock w (ticks w)), w\<lparr>ticks := Suc (ticks w)\<rparr>)"
  by (simp add: fetchNewBackground_def Date_now_def seed_url_def)

lemma preloadImage_eq:
  "preloadImage u w =
     (if has_Image w then (Inr (image w u = Onload), w\<lparr>requests := requests w @ [u]\<rparr>)
      else (Inl ReferenceError, w))"
  by (simp add: preloadImage_def Let_def split: img_event.split)

lemma validates_iff: "validates u w \<longleftrightarrow> has_Image w \<and> image w u = Onload"
  by (simp add: validates_def preloadImage_eq)

lemma seed_url_nonempty: "seed_url t \<noteq> []"
  by (simp add: seed_url_def)

lemma getSessionBackground_eq:
  "getSessionBackground w =
     (if has_window w \<and> \<not> unavailable (sessionStorage w) then item (sessionStorage w)
      else None)"
  by (simp add: getSessionBackground_def getItem_def)

lemma setSessionBackground_eq:
  "setSessionBackground u w =
     (if \<not> has_window w then w
      else if unavailable (sessionStorage w) \<or> quota_exceeded (sessionStorage w)
        then w\<lparr>console := console w @ [''Failed to set session background:'']\<rparr>
      else w\<lparr>sessionStorage := (sessionStorage w)\<lparr>item := Some u\<rparr>\<rparr>)"
  by (simp add: setSessionBackground_def setItem_def)

lemma getCachedBackground_eq:
  "getCachedBackground w =
     (if has_window w \<and> \<not> unavailable (localStorage w) then
        (case item (localStorage w) of
           None \<Rightarrow> (None, w)
         | Some (Malformed s) \<Rightarrow> (None, w)
         | Some (Stringified d) \<Rightarrow>
             if clock w (ticks w) - timestamp d > BG_EXPIRE_TIME
             then (None, w\<lparr>ticks := Suc (ticks w),
                            localStorage := (localStorage w)\<lparr>item := None\<rparr>\<rparr>)
             else (Some (url d), w\<lparr>ticks := Suc (ticks w)\<rparr>))
      else (None, w))"
proof (cases "item (localStorage w)")
  case None
  then show ?thesis by (simp add: getCachedBackground_def getItem_def)
next
  case (Some t)
  then show ?thesis
    by (cases t) (simp_all add: getCachedBackground_def getItem_def removeItem_def Date_now_def)
qed

lemma setCachedBackground_eq:
  "setCachedBackground u w =
     (if \<not> has_window w then w
      else if unavailable (localStorage w) \<or> quota_exceeded (localStorage w)
        then w\<lparr>ticks := Suc (ticks w),
               console := console w @ [''Failed to cache background:'']\<rparr>
      else w\<lparr>ticks := Suc (ticks w),
              localStorage := (localStorage w)
                \<lparr>item := Some (Stringified \<lparr>url = u, timestamp = clock w (ticks w)\<rparr>)\<rparr>\<rparr>)"
  by (simp add: setCachedBackground_def Date_now_def setItem_def JSON_stringify_def)

lemma initBackground_global:
  "truthy (globalBackgroundUrl w) \<Longrightarrow>
   initBackground w = Fulfilled (w\<lparr>backgroundUrl := string_of (globalBackgroundUrl w)\<rparr>)"
  by (simp add: initBackground_def getGlobalBackground_def setBackgroundUrl_def)

lemma initBackground_session:
  "\<not> truthy (globalBackgroundUrl w) \<Longrightarrow> truthy (getSessionBackground w) \<Longrightarrow>
   initBackground w =
     Fulfilled (w\<lparr>backgroundUrl := string_of (getSessionBackground w),
                  globalBackgroundUrl := Some (string_of (getSessionBackground w))\<rparr>)"
  by (simp add: initBackground_def getGlobalBackground_def setBackgroundUrl_def
      setGlobalBackground_def Let_def)

lemma refreshBackground_eq:
  "refreshBackground w =
     (let newUrl = seed_url (clock w (ticks w));
          w2 = w\<lparr>ticks := Suc (ticks w), requests := requests w @ [newUrl]\<rparr> in
      if \<not> has_Image w then Rejected ReferenceError (w\<lparr>ticks := Suc (ticks w)\<rparr>)
      else if image w newUrl = Onload then
        Fulfilled ((setCachedBackground newUrl
                     (setSessionBackground newUrl
                        (w2\<lparr>backgroundUrl := newUrl, globalBackgroundUrl := Some newUrl\<rparr>)))
                   \<lparr>isLoaded := False\<rparr>)
      else Fulfilled w2)"
  by (simp add: refreshBackground_def fetchNewBackground_eq preloadImage_eq Let_def
      setIsLoaded_def setGlobalBackground_def setBackgroundUrl_def)

subsection \<open>The persisted read and the lower tiers\<close>

lemma getCachedBackground_frame:
  "has_window (snd (getCachedBackground w)) = has_window w"
  "has_Image (snd (getCachedBackground w)) = has_Image w"
  "image (snd (getCachedBackground w)) = image w"
  "requests (snd (getCachedBackground w)) = requests w"
  "clock (snd (getCachedBackground w)) = clock w"
  "console (snd (getCachedBackground w)) = console w"
  "globalBackgroundUrl (snd (getCachedBackground w)) = globalBackgroundUrl w"
  "sessionStorage (snd (getCachedBackground w)) = sessionStorage w"
  "backgroundUrl (snd (getCachedBackground w)) = backgroundUrl w"
  "isLoaded (snd (getCachedBackground w)) = isLoaded w"
  "unavailable (localStorage (snd (getCachedBackground w))) = unavailable (localStorage w)"
  "quota_exceeded (localStorage (snd (getCachedBackground w))) = quota_exceeded (localStorage w)"
  by (simp_all add: getCachedBackground_eq split: option.split cache_text.split)

lemma getCachedBackground_Some:
  assumes "fst (getCachedBackground w) = Some c"
  shows "has_window w" and "\<not> unavailable (localStorage w)"
    and "snd (getCachedBackground w) = w\<lparr>ticks := Suc (ticks w)\<rparr>"
    and "\<exists>d. item (localStorage w) = Some (Stringified d) \<and> url d = c
           \<and> clock w (ticks w) - timestamp d \<le> BG_EXPIRE_TIME"
  using assms
  by (simp_all add: getCachedBackground_eq split: option.splits cache_text.splits if_splits)

lemma getCachedBackground_item:
  "item (localStorage (snd (getCachedBackground w))) = item (localStorage w) \<or>
   item (localStorage (snd (getCachedBackground w))) = None"
  by (simp add: getCachedBackground_eq split: option.split cache_text.split)

lemma init_cached_eq:
  "init_cached w =
     (let cached = fst (getCachedBackground w); w1 = snd (getCachedBackground w) in
      if \<not> truthy cached then Inr ([], w1)
      else if \<not> has_Image w then Inl (ReferenceError, w1)
      else if image w (string_of cached) = Onload
        then Inr (string_of cached, w1\<lparr>requests := requests w @ [string_of cached]\<rparr>)
      else Inr ([], w1\<lparr>requests := requests w @ [string_of cached],
                       localStorage := (localStorage w)\<lparr>item := None\<rparr>\<rparr>))"
proof (cases "fst (getCachedBackground w)")
  case None
  then show ?thesis by (simp add: init_cached_def case_prod_unfold Let_def)
next
  case (Some c)
  from getCachedBackground_Some[OF Some] have a: "\<not> unavailable (localStorage w)"
    and s: "snd (getCachedBackground w) = w\<lparr>ticks := Suc (ticks w)\<rparr>" by simp_all
  show ?thesis using Some a s
    by (simp add: init_cached_def preloadImage_eq removeItem_def case_prod_unfold Let_def)
qed

lemma init_generate_eq:
  "init_generate [] w =
     (let newUrl = seed_url (clock w (ticks w));
          w2 = w\<lparr>ticks := Suc (ticks w), requests := requests w @ [newUrl]\<rparr> in
      if \<not> has_Image w then Inl (ReferenceError, w\<lparr>ticks := Suc (ticks w)\<rparr>)
      else if image w newUrl = Onload then Inr (newUrl, setCachedBackground newUrl w2)
      else Inr ([], w2))"
  by (simp add: init_generate_def fetchNewBackground_eq preloadImage_eq Let_def)

lemma init_generate_keep: "u \<noteq> [] \<Longrightarrow> init_generate u w = Inr (u, w)"
  by (simp add: init_generate_def)

lemma init_commit_eq:
  "init_commit u w =
     (if u = [] then w
      else setSessionBackground u (w\<lparr>backgroundUrl := u, globalBackgroundUrl := Some u\<rparr>))"
  by (simp add: init_commit_def setGlobalBackground_def setBackgroundUrl_def)

lemma initBackground_lower:
  "\<not> truthy (globalBackgroundUrl w) \<Longrightarrow> \<not> truthy (getSessionBackground w) \<Longrightarrow>
   initBackground w =
     (case init_cached w of
        Inl (e, w1) \<Rightarrow> Rejected e w1
      | Inr (finalUrl, w1) \<Rightarrow>
          (case init_generate finalUrl w1 of
             Inl (e, w2) \<Rightarrow> Rejected e w2
           | Inr (finalUrl', w2) \<Rightarrow> Fulfilled (init_commit finalUrl' w2)))"
  by (simp add: initBackground_def getGlobalBackground_def Let_def)

lemma initBackground_lower_eq:
  assumes "\<not> truthy (globalBackgroundUrl w)" "\<not> truthy (getSessionBackground w)"
  shows "initBackground w =
     (let cached = fst (getCachedBackground w); w1 = snd (getCachedBackground w);
          c = string_of cached in
      if truthy cached \<and> \<not> has_Image w then Rejected ReferenceError w1
      else if truthy cached \<and> image w c = Onload then
        Fulfilled (setSessionBackground c
          (w1\<lparr>requests := requests w @ [c], backgroundUrl := c,
              globalBackgroundUrl := Some c\<rparr>))
      else
        let w2 = (if truthy cached
                  then w1\<lparr>requests := requests w @ [c],
                          localStorage := (localStorage w)\<lparr>item := None\<rparr>\<rparr>
                  else w1);
            newUrl = seed_url (clock w (ticks w1));
            w3 = w2\<lparr>ticks := Suc (ticks w1), requests := requests w2 @ [newUrl]\<rparr> in
        if \<not> has_Image w then Rejected ReferenceError (w2\<lparr>ticks := Suc (ticks w1)\<rparr>)
        else if image w newUrl = Onload then
          Fulfilled (setSessionBackground newUrl
            ((setCachedBackground newUrl w3)
               \<lparr>backgroundUrl := newUrl, globalBackgroundUrl := Some newUrl\<rparr>))
        else Fulfilled w3)"
  using assms
  by (simp add: initBackground_lower init_cached_eq init_generate_eq init_generate_keep
      init_commit_eq Let_def seed_url_nonempty getCachedBackground_frame truthy_string_of)

lemmas lower_simps = initBackground_lower_eq Let_def getCachedBackground_frame validates_iff fetchNewBackground_eq
  setSessionBackground_eq setCachedBackground_eq writable_def truthy_Some_string_of

subsection \<open>Candidates that fail\<close>

lemma refresh_not_written:
  assumes "image w u \<noteq> Onload"
  shows "not_written u w (final (refreshBackground w))"
  using assms
  by (auto simp add: not_written_def persisted_url_def refreshBackground_eq Let_def
      setSessionBackground_eq setCachedBackground_eq)

lemma init_not_written:
  assumes "image w u \<noteq> Onload" and "u \<in> set (preloaded w (final (initBackground w)))"
  shows "not_written u w (final (initBackground w))"
proof (cases "truthy (globalBackgroundUrl w)")
  case True
  then show ?thesis using assms(2) by (simp add: initBackground_global preloaded_def)
next
  case g: False
  show ?thesis
  proof (cases "truthy (getSessionBackground w)")
    case True
    then show ?thesis using assms(2) g by (simp add: initBackground_session preloaded_def)
  next
    case s: False
    have "item (localStorage (snd (getCachedBackground w))) = item (localStorage w) \<or>
          item (localStorage (snd (getCachedBackground w))) = None" by (rule getCachedBackground_item)
    then show ?thesis using assms(1)
      by (auto simp add: not_written_def persisted_url_def initBackground_lower_eq[OF g s]
          Let_def getCachedBackground_frame setSessionBackground_eq setCachedBackground_eq
          truthy_Some_string_of)
  qed
qed

lemma init_after_failed_cached:
  assumes "\<not> truthy (globalBackgroundUrl w)" "\<not> truthy (getSessionBackground w)"
    and "fst (getCachedBackground w) = Some u" "u \<noteq> []" "has_Image w" "image w u \<noteq> Onload"
  shows "requests (final (initBackground w)) =
           requests w @ [u, fst (fetchNewBackground (snd (getCachedBackground w)))]"
    and "backgroundUrl (final (initBackground w)) =
           (if validates (fst (fetchNewBackground (snd (getCachedBackground w)))) w
            then fst (fetchNewBackground (snd (getCachedBackground w)))
            else backgroundUrl w)"
  using assms getCachedBackground_Some(3)[OF assms(3)]
  by (simp_all add: initBackground_lower_eq Let_def validates_iff fetchNewBackground_eq
      setSessionBackground_eq setCachedBackground_eq)

subsection \<open>The loaded flag\<close>

lemma initBackground_isLoaded: "isLoaded (final (initBackground w)) = isLoaded w"
proof (cases "truthy (globalBackgroundUrl w)")
  case True
  then show ?thesis by (simp add: initBackground_global)
next
  case g: False
  show ?thesis
  proof (cases "truthy (getSessionBackground w)")
    case True
    then show ?thesis using g by (simp add: initBackground_session)
  next
    case s: False
    show ?thesis
      by (simp add: initBackground_lower_eq[OF g s] Let_def getCachedBackground_frame setSessionBackground_eq
          setCachedBackground_eq)
  qed
qed

lemma refreshBackground_isLoaded:
  "isLoaded (final (refreshBackground w)) =
     (isLoaded w \<and> \<not> validates (fst (fetchNewBackground w)) (snd (fetchNewBackground w)))"
  by (simp add: refreshBackground_eq Let_def validates_iff fetchNewBackground_eq
      setSessionBackground_eq setCachedBackground_eq)

section \<open>Properties\<close>

subsection \<open>Refreshing\<close>

text \<open>
  C1, as amended. A call of \<^verbatim>\<open>refreshBackground\<close> generates a URL and preloads it. If the
  preload validates it, \<open>backgroundUrl\<close> and the in-memory tier are that URL and
  \<open>isLoaded\<close> is false; the session tier is that URL when the session write goes
  through, and the persisted tier is a record of that URL, stamped with the clock reading
  taken at the write, when the persisted write goes through. If the preload does not
  validate it, \<open>backgroundUrl\<close>, \<open>isLoaded\<close> and all three tiers are as before.
\<close>

theorem refreshBackground_outcome:
  fixes w :: world
  defines "newUrl \<equiv> fst (fetchNewBackground w)"
    and "w' \<equiv> final (refreshBackground w)"
  shows
    "(validates newUrl (snd (fetchNewBackground w)) \<longrightarrow>
        backgroundUrl w' = newUrl \<and> globalBackgroundUrl w' = Some newUrl \<and> \<not> isLoaded w' \<and>
        (writable w (sessionStorage w) \<longrightarrow> item (sessionStorage w') = Some newUrl) \<and>
        (writable w (localStorage w) \<longrightarrow>
           item (localStorage w') =
             Some (Stringified \<lparr>url = newUrl, timestamp = clock w (Suc (ticks w))\<rparr>))) \<and>
     (\<not> validates newUrl (snd (fetchNewBackground w)) \<longrightarrow>
        backgroundUrl w' = backgroundUrl w \<and> isLoaded w' = isLoaded w \<and>
        globalBackgroundUrl w' = globalBackgroundUrl w \<and>
        sessionStorage w' = sessionStorage w \<and> localStorage w' = localStorage w)"
  unfolding newUrl_def w'_def
  by (simp add: validates_iff refreshBackground_eq fetchNewBackground_eq writable_def
      setCachedBackground_eq setSessionBackground_eq Let_def)

theorem refreshBackground_outcome_witness:
  "validates (fst (fetchNewBackground page)) (snd (fetchNewBackground page)) \<and>
   writable page (sessionStorage page) \<and> writable page (localStorage page) \<and>
   item (sessionStorage (final (refreshBackground page))) = Some (fst (fetchNewBackground page)) \<and>
   \<not> validates (fst (fetchNewBackground offline_page)) (snd (fetchNewBackground offline_page)) \<and>
   sessionStorage (final (refreshBackground offline_page)) = sessionStorage offline_page"
  using refreshBackground_outcome [of page] refreshBackground_outcome [of offline_page]
  by (simp add: validates_iff fetchNewBackground_eq writable_def page_def offline_page_def)

text \<open>
  C1 as written fails where \<^verbatim>\<open>setItem\<close> throws: the preload validates the new URL, the
  \<^verbatim>\<open>catch\<close> of \<^verbatim>\<open>setSessionBackground\<close> swallows the exception, and the session tier
  does not hold the new URL.
\<close>

theorem refreshBackground_counterexample:
  "validates (fst (fetchNewBackground private_page)) (snd (fetchNewBackground private_page)) \<and>
   item (sessionStorage (final (refreshBackground private_page)))
     \<noteq> Some (fst (fetchNewBackground private_page))"
  by (simp add: validates_iff fetchNewBackground_eq refreshBackground_eq private_page_def page_def
      setCachedBackground_eq setSessionBackground_eq Let_def)

subsection \<open>The session lock\<close>

text \<open>
  C2, as amended. When the session tier holds a URL and the in-memory tier is empty or
  holds the same URL, \<^verbatim>\<open>initBackground\<close> yields that URL as \<open>backgroundUrl\<close>, whatever
  the persisted tier \<open>ls\<close> contains. It changes nothing but \<open>backgroundUrl\<close> and the
  in-memory tier, which afterwards holds the session URL, so the next run starts from
  the same condition.
\<close>

theorem session_lock_stable:
  assumes "truthy (getSessionBackground w)"
    and "\<not> truthy (globalBackgroundUrl w) \<or> globalBackgroundUrl w = getSessionBackground w"
  shows "initBackground (w\<lparr>localStorage := ls\<rparr>) =
           Fulfilled (w\<lparr>localStorage := ls,
                        backgroundUrl := string_of (getSessionBackground w),
                        globalBackgroundUrl := getSessionBackground w\<rparr>)"
proof (cases "truthy (globalBackgroundUrl w)")
  case True
  with assms(2) have g: "globalBackgroundUrl w = getSessionBackground w" by simp
  have "truthy (globalBackgroundUrl (w\<lparr>localStorage := ls\<rparr>))" using True by simp
  from initBackground_global[OF this] show ?thesis using g by simp
next
  case False
  have a: "\<not> truthy (globalBackgroundUrl (w\<lparr>localStorage := ls\<rparr>))" using False by simp
  have s: "getSessionBackground (w\<lparr>localStorage := ls\<rparr>) = getSessionBackground w"
    by (simp add: getSessionBackground_eq)
  have b: "truthy (getSessionBackground (w\<lparr>localStorage := ls\<rparr>))" using assms(1) s by simp
  obtain u where u: "getSessionBackground w = Some u"
    using assms(1) by (cases "getSessionBackground w") auto
  show ?thesis using initBackground_session[OF a b] s u by simp
qed

theorem session_lock_stable_witness:
  "truthy (getSessionBackground locked_page) \<and>
   \<not> truthy (globalBackgroundUrl locked_page) \<and>
   initBackground (locked_page\<lparr>localStorage := localStorage private_page\<rparr>) =
     Fulfilled (locked_page\<lparr>localStorage := localStorage private_page,
                  backgroundUrl := string_of (getSessionBackground locked_page),
                  globalBackgroundUrl := getSessionBackground locked_page\<rparr>)"
  using session_lock_stable [of locked_page "localStorage private_page"]
  by (simp add: getSessionBackground_eq locked_page_def page_def)

text \<open>
  C2 as written fails when the in-memory tier has moved away from the session tier. The
  session is locked to a URL and its storage is out of quota. A provider mounts and adopts
  the session URL; \<^verbatim>\<open>refreshBackground\<close> validates a new URL and puts it in memory, while
  its session write throws and is swallowed, so the session tier still holds the old URL;
  the next provider to mount adopts the URL in memory, not the one in the session tier.
\<close>

theorem session_lock_counterexample:
  "getSessionBackground full_session_page = Some ''https://loliapi.com/acg/?seed=7'' \<and>
   getSessionBackground
     (final (refreshBackground (final (initBackground (BackgroundProvider full_session_page)))))
     = Some ''https://loliapi.com/acg/?seed=7'' \<and>
   sessionStorage
     (final (refreshBackground (final (initBackground (BackgroundProvider full_session_page)))))
     = sessionStorage full_session_page \<and>
   backgroundUrl (final (initBackground (BackgroundProvider
     (final (refreshBackground (final (initBackground (BackgroundProvider full_session_page))))))))
     \<noteq> ''https://loliapi.com/acg/?seed=7''"
  by (simp add: full_session_page_def page_def BackgroundProvider_def initBackground_def
      getGlobalBackground_def getSessionBackground_eq setBackgroundUrl_def setGlobalBackground_def
      refreshBackground_eq setCachedBackground_eq setSessionBackground_eq Let_def seed_url_def
      number_toString_1000)

subsection \<open>What initialization writes\<close>

text \<open>
  C3, as amended. Let initialization get past the in-memory and the session tier. When the
  persisted read returns a URL (a record that has not expired) and the preload validates
  it, that URL becomes \<open>backgroundUrl\<close> and the in-memory tier, and the session tier
  when the session write goes through, while the persisted storage, timestamp included, is
  exactly as before. When there is no such URL, or its preload fails, and the preload
  validates the freshly generated URL, that URL becomes \<open>backgroundUrl\<close> and the
  in-memory tier, the session tier when the session write goes through, and the persisted
  tier holds a record of it, stamped with the clock reading that follows the seed, when
  the persisted write goes through. In every case the persisted tier afterwards holds what
  it held before, or nothing, or the record of the validated fresh URL.
\<close>

theorem initBackground_persisted_asymmetry:
  fixes w :: world
  assumes g: "\<not> truthy (globalBackgroundUrl w)" and s: "\<not> truthy (getSessionBackground w)"
  defines "cached \<equiv> fst (getCachedBackground w)"
    and "w1 \<equiv> snd (getCachedBackground w)"
    and "w' \<equiv> final (initBackground w)"
  defines "newUrl \<equiv> fst (fetchNewBackground w1)"
  shows
    "(truthy cached \<and> validates (string_of cached) w1 \<longrightarrow>
        backgroundUrl w' = string_of cached \<and> globalBackgroundUrl w' = cached \<and>
        (writable w (sessionStorage w) \<longrightarrow> item (sessionStorage w') = cached) \<and>
        localStorage w' = localStorage w) \<and>
     ((\<not> truthy cached \<or> fst (preloadImage (string_of cached) w1) = Inr False) \<and>
      validates newUrl w1 \<longrightarrow>
        backgroundUrl w' = newUrl \<and> globalBackgroundUrl w' = Some newUrl \<and>
        (writable w (sessionStorage w) \<longrightarrow> item (sessionStorage w') = Some newUrl) \<and>
        (writable w (localStorage w) \<longrightarrow>
           item (localStorage w') =
             Some (Stringified \<lparr>url = newUrl, timestamp = clock w (Suc (ticks w1))\<rparr>))) \<and>
     (item (localStorage w') = item (localStorage w) \<or> item (localStorage w') = None \<or>
      validates newUrl w1 \<and>
      item (localStorage w') =
        Some (Stringified \<lparr>url = newUrl, timestamp = clock w (Suc (ticks w1))\<rparr>))"
proof (intro conjI impI)
  assume a: "truthy cached \<and> validates (string_of cached) w1"
  then obtain c where c: "fst (getCachedBackground w) = Some c"
    unfolding cached_def by (cases "fst (getCachedBackground w)") auto
  note k = getCachedBackground_Some(3)[OF c]
  from a c k g s show "backgroundUrl w' = string_of cached"
    and "globalBackgroundUrl w' = cached"
    and "localStorage w' = localStorage w"
    unfolding cached_def w1_def w'_def by (simp_all add: lower_simps)
  assume "writable w (sessionStorage w)"
  with a c k g s show "item (sessionStorage w') = cached"
    unfolding cached_def w1_def w'_def by (simp add: lower_simps)
next
  assume a: "(\<not> truthy cached \<or> fst (preloadImage (string_of cached) w1) = Inr False) \<and>
      validates newUrl w1"
  then have i: "has_Image w" and n: "image w (seed_url (clock w (ticks w1))) = Onload"
    and f: "\<not> truthy cached \<or> image w (string_of cached) \<noteq> Onload"
    unfolding newUrl_def w1_def cached_def
    by (auto simp add: validates_iff fetchNewBackground_eq getCachedBackground_frame preloadImage_eq)
  from i n f g s show "backgroundUrl w' = newUrl" and "globalBackgroundUrl w' = Some newUrl"
    unfolding cached_def w1_def w'_def newUrl_def by (auto simp add: lower_simps)
  {
    assume "writable w (sessionStorage w)"
    with i n f g s show "item (sessionStorage w') = Some newUrl"
      unfolding cached_def w1_def w'_def newUrl_def by (auto simp add: lower_simps)
  }
  assume "writable w (localStorage w)"
  with i n f g s show "item (localStorage w') =
             Some (Stringified \<lparr>url = newUrl, timestamp = clock w (Suc (ticks w1))\<rparr>)"
    unfolding cached_def w1_def w'_def newUrl_def by (auto simp add: lower_simps)
next
  show "item (localStorage w') = item (localStorage w) \<or> item (localStorage w') = None \<or>
      validates newUrl w1 \<and>
      item (localStorage w') =
        Some (Stringified \<lparr>url = newUrl, timestamp = clock w (Suc (ticks w1))\<rparr>)"
    using g s getCachedBackground_item[of w]
    unfolding cached_def w1_def w'_def newUrl_def by (auto simp add: lower_simps)
qed

theorem initBackground_persisted_asymmetry_witness:
  "\<not> truthy (globalBackgroundUrl cached_page) \<and> \<not> truthy (getSessionBackground cached_page) \<and>
   truthy (fst (getCachedBackground cached_page)) \<and>
   validates (string_of (fst (getCachedBackground cached_page))) (snd (getCachedBackground cached_page)) \<and>
   writable cached_page (sessionStorage cached_page) \<and>
   backgroundUrl (final (initBackground cached_page)) = ''https://loliapi.com/acg/?seed=7'' \<and>
   item (sessionStorage (final (initBackground cached_page))) = Some ''https://loliapi.com/acg/?seed=7'' \<and>
   localStorage (final (initBackground cached_page)) = localStorage cached_page \<and>
   \<not> truthy (globalBackgroundUrl page) \<and> \<not> truthy (getSessionBackground page) \<and>
   \<not> truthy (fst (getCachedBackground page)) \<and>
   validates (fst (fetchNewBackground (snd (getCachedBackground page)))) (snd (getCachedBackground page)) \<and>
   writable page (localStorage page) \<and>
   item (localStorage (final (initBackground page))) =
     Some (Stringified \<lparr>url = ''https://loliapi.com/acg/?seed=1000'', timestamp = 1500\<rparr>)"
  using initBackground_persisted_asymmetry [of cached_page]
    initBackground_persisted_asymmetry [of page]
  by (simp add: cached_page_def page_def getSessionBackground_eq getCachedBackground_eq
      BG_EXPIRE_TIME_eq validates_iff writable_def fetchNewBackground_eq seed_url_def
      number_toString_1000)

text \<open>
  C3 as written fails where the session \<^verbatim>\<open>setItem\<close> throws: the persisted URL is
  returned and validated and becomes \<open>backgroundUrl\<close>, and the session tier does not
  hold it.
\<close>

theorem initBackground_persisted_counterexample:
  "\<not> truthy (globalBackgroundUrl cached_private_page) \<and>
   \<not> truthy (getSessionBackground cached_private_page) \<and>
   fst (getCachedBackground cached_private_page) = Some ''https://loliapi.com/acg/?seed=7'' \<and>
   validates ''https://loliapi.com/acg/?seed=7'' (snd (getCachedBackground cached_private_page)) \<and>
   backgroundUrl (final (initBackground cached_private_page)) = ''https://loliapi.com/acg/?seed=7'' \<and>
   item (sessionStorage (final (initBackground cached_private_page)))
     \<noteq> Some ''https://loliapi.com/acg/?seed=7''"
  by (simp add: cached_private_page_def cached_page_def page_def getSessionBackground_eq
      getCachedBackground_eq BG_EXPIRE_TIME_eq validates_iff initBackground_lower_eq Let_def
      setSessionBackground_eq)

text \<open>
  C4, as amended. Start with nothing in memory, nothing in the session tier and nothing in
  the persisted tier, both storages accepting writes. Initialization reads the clock, say
  \<open>T1\<close>, and generates the URL with seed \<open>T1\<close>. If its preload succeeds,
  \<open>backgroundUrl\<close>, the in-memory tier and the session tier are that URL, and the persisted
  tier holds the record of that URL whose timestamp is \<open>T2\<close>, the next reading of the
  clock, taken by \<^verbatim>\<open>setCachedBackground\<close> after the preload has finished.
\<close>

theorem first_visit_scenario:
  fixes w :: world
  assumes "globalBackgroundUrl w = None" and "item (sessionStorage w) = None"
    and "item (localStorage w) = None"
    and "writable w (sessionStorage w)" and "writable w (localStorage w)"
    and "validates (fst (fetchNewBackground w)) (snd (fetchNewBackground w))"
  defines "T1 \<equiv> clock w (ticks w)" and "T2 \<equiv> clock w (Suc (ticks w))"
    and "w' \<equiv> final (initBackground w)"
  shows "fst (fetchNewBackground w) = ''https://loliapi.com/acg/?seed='' @ number_toString T1 \<and>
         backgroundUrl w' = fst (fetchNewBackground w) \<and>
         globalBackgroundUrl w' = Some (fst (fetchNewBackground w)) \<and>
         item (sessionStorage w') = Some (fst (fetchNewBackground w)) \<and>
         item (localStorage w') =
           Some (Stringified \<lparr>url = fst (fetchNewBackground w), timestamp = T2\<rparr>)"
proof -
  have g: "\<not> truthy (globalBackgroundUrl w)" using assms(1) by simp
  have s: "\<not> truthy (getSessionBackground w)" using assms(2) by (simp add: getSessionBackground_eq)
  have c: "getCachedBackground w = (None, w)" using assms(3) by (simp add: getCachedBackground_eq)
  show ?thesis using assms(4-6) c
    unfolding T1_def T2_def w'_def
    by (simp add: initBackground_lower_eq[OF g s] Let_def validates_iff fetchNewBackground_eq
        setSessionBackground_eq setCachedBackground_eq writable_def seed_url_def)
qed

theorem first_visit_scenario_witness:
  "globalBackgroundUrl page = None \<and> item (sessionStorage page) = None \<and>
   item (localStorage page) = None \<and>
   writable page (sessionStorage page) \<and> writable page (localStorage page) \<and>
   validates (fst (fetchNewBackground page)) (snd (fetchNewBackground page)) \<and>
   fst (fetchNewBackground page) = ''https://loliapi.com/acg/?seed=1000'' \<and>
   backgroundUrl (final (initBackground page)) = ''https://loliapi.com/acg/?seed=1000'' \<and>
   item (sessionStorage (final (initBackground page))) = Some ''https://loliapi.com/acg/?seed=1000'' \<and>
   item (localStorage (final (initBackground page))) =
     Some (Stringified \<lparr>url = ''https://loliapi.com/acg/?seed=1000'', timestamp = 1500\<rparr>)"
  using first_visit_scenario [of page]
  by (simp add: page_def validates_iff writable_def fetchNewBackground_eq seed_url_def
      number_toString_1000)

text \<open>
  C4 as written fails as soon as the clock has moved during the preload: the seed is the
  reading 1000, and the record is stamped with the later reading 1500, not with the seed.
\<close>

theorem first_visit_counterexample:
  "globalBackgroundUrl page = None \<and> item (sessionStorage page) = None \<and>
   item (localStorage page) = None \<and>
   validates (fst (fetchNewBackground page)) (snd (fetchNewBackground page)) \<and>
   fst (Date_now page) = 1000 \<and>
   fst (fetchNewBackground page) = ''https://loliapi.com/acg/?seed=1000'' \<and>
   item (localStorage (final (initBackground page)))
     \<noteq> Some (Stringified \<lparr>url = ''https://loliapi.com/acg/?seed=1000'', timestamp = 1000\<rparr>)"
  by (simp add: page_def validates_iff fetchNewBackground_eq seed_url_def number_toString_1000
      Date_now_def initBackground_lower_eq getSessionBackground_eq getCachedBackground_eq Let_def
      setSessionBackground_eq setCachedBackground_eq)

subsection \<open>Candidates whose preload fails\<close>

text \<open>
  C5. Let the image at \<open>u\<close> fail to load, by an error or by the timeout. If
  initialization preloads \<open>u\<close>, it writes \<open>u\<close> to none of the three tiers; neither does
  \<^verbatim>\<open>refreshBackground\<close>. And when \<open>u\<close> is the candidate that the persisted tier
  supplied, initialization goes on to the generation step: the next URL it preloads is the
  freshly generated one, which becomes \<open>backgroundUrl\<close> if its own preload succeeds.
\<close>

theorem failed_preload_never_stored:
  fixes w :: world
  assumes "image w u \<noteq> Onload"
  defines "w' \<equiv> final (initBackground w)"
    and "newUrl \<equiv> fst (fetchNewBackground (snd (getCachedBackground w)))"
  shows "(u \<in> set (preloaded w w') \<longrightarrow> not_written u w w') \<and>
         not_written u w (final (refreshBackground w)) \<and>
         (\<not> truthy (globalBackgroundUrl w) \<and> \<not> truthy (getSessionBackground w) \<and>
          fst (getCachedBackground w) = Some u \<and> u \<noteq> [] \<and> has_Image w \<longrightarrow>
            requests w' = requests w @ [u, newUrl] \<and>
            backgroundUrl w' = (if validates newUrl w then newUrl else backgroundUrl w))"
  unfolding w'_def newUrl_def
  using assms(1) init_not_written[of w u] refresh_not_written[of w u]
    init_after_failed_cached[of w u]
  by blast

theorem failed_preload_never_stored_witness:
  "image stale_page ''https://loliapi.com/acg/?seed=7'' \<noteq> Onload \<and>
   ''https://loliapi.com/acg/?seed=7'' \<in> set (preloaded stale_page (final (initBackground stale_page))) \<and>
   not_written ''https://loliapi.com/acg/?seed=7'' stale_page (final (initBackground stale_page)) \<and>
   not_written ''https://loliapi.com/acg/?seed=7'' stale_page (final (refreshBackground stale_page)) \<and>
   \<not> truthy (globalBackgroundUrl stale_page) \<and> \<not> truthy (getSessionBackground stale_page) \<and>
   fst (getCachedBackground stale_page) = Some ''https://loliapi.com/acg/?seed=7'' \<and>
   has_Image stale_page \<and>
   requests (final (initBackground stale_page)) =
     [''https://loliapi.com/acg/?seed=7'', ''https://loliapi.com/acg/?seed=1500''] \<and>
   backgroundUrl (final (initBackground stale_page)) = ''https://loliapi.com/acg/?seed=1500''"
  using failed_preload_never_stored [of stale_page "''https://loliapi.com/acg/?seed=7''"]
  by (simp add: stale_page_def cached_page_def page_def getSessionBackground_eq getCachedBackground_eq
      BG_EXPIRE_TIME_eq validates_iff fetchNewBackground_eq seed_url_def number_toString_1500
      preloaded_def initBackground_lower_eq Let_def setSessionBackground_eq
      setCachedBackground_eq)

subsection \<open>Expiry of the persisted record\<close>

text \<open>
  C6. Let the persisted tier hold a record, and let its age be the clock reading taken by
  the read minus its timestamp. If the age exceeds 86,400,000 ms, the read returns null and
  the record is gone from the storage; an initialization that gets to the persisted tier
  then preloads no URL but the freshly generated one, which becomes \<open>backgroundUrl\<close> if
  it validates. If the age is at most 86,400,000 ms, the read returns the URL of the record
  and leaves the storage alone.
\<close>

theorem persisted_expiry:
  fixes w :: world
  assumes "has_window w" and "\<not> unavailable (localStorage w)"
    and "item (localStorage w) = Some (Stringified d)"
  defines "age \<equiv> fst (Date_now w) - timestamp d"
    and "newUrl \<equiv> fst (fetchNewBackground (snd (getCachedBackground w)))"
    and "w' \<equiv> final (initBackground w)"
  shows "(age > 86400000 \<longrightarrow>
            fst (getCachedBackground w) = None \<and>
            item (localStorage (snd (getCachedBackground w))) = None \<and>
            (\<not> truthy (globalBackgroundUrl w) \<and> \<not> truthy (getSessionBackground w) \<longrightarrow>
               requests w' = (if has_Image w then requests w @ [newUrl] else requests w) \<and>
               backgroundUrl w' = (if validates newUrl w then newUrl else backgroundUrl w))) \<and>
         (age \<le> 86400000 \<longrightarrow>
            getCachedBackground w = (Some (url d), w\<lparr>ticks := Suc (ticks w)\<rparr>))"
proof (intro conjI impI)
  assume "age \<le> 86400000"
  then show "getCachedBackground w = (Some (url d), w\<lparr>ticks := Suc (ticks w)\<rparr>)"
    using assms(1-3) unfolding age_def
    by (simp add: getCachedBackground_eq BG_EXPIRE_TIME_eq Date_now_def)
next
  assume a: "age > 86400000"
  then have c: "getCachedBackground w =
      (None, w\<lparr>ticks := Suc (ticks w), localStorage := (localStorage w)\<lparr>item := None\<rparr>\<rparr>)"
    using assms(1-3) unfolding age_def
    by (simp add: getCachedBackground_eq BG_EXPIRE_TIME_eq Date_now_def)
  show "fst (getCachedBackground w) = None"
    and "item (localStorage (snd (getCachedBackground w))) = None"
    by (simp_all add: c)
  assume "\<not> truthy (globalBackgroundUrl w) \<and> \<not> truthy (getSessionBackground w)"
  then have g: "\<not> truthy (globalBackgroundUrl w)" and s: "\<not> truthy (getSessionBackground w)"
    by simp_all
  show "requests w' = (if has_Image w then requests w @ [newUrl] else requests w)"
    and "backgroundUrl w' = (if validates newUrl w then newUrl else backgroundUrl w)"
    unfolding w'_def newUrl_def
    by (simp_all add: initBackground_lower_eq[OF g s] c Let_def validates_iff
        fetchNewBackground_eq setSessionBackground_eq setCachedBackground_eq)
qed

theorem persisted_expiry_witness:
  "has_window expired_page \<and> \<not> unavailable (localStorage expired_page) \<and>
   item (localStorage expired_page) =
     Some (Stringified \<lparr>url = ''https://loliapi.com/acg/?seed=7'', timestamp = 0\<rparr>) \<and>
   fst (Date_now expired_page) - 0 > 86400000 \<and>
   fst (getCachedBackground expired_page) = None \<and>
   item (localStorage (snd (getCachedBackground expired_page))) = None \<and>
   \<not> truthy (globalBackgroundUrl expired_page) \<and> \<not> truthy (getSessionBackground expired_page) \<and>
   requests (final (initBackground expired_page)) =
     [fst (fetchNewBackground (snd (getCachedBackground expired_page)))] \<and>
   item (localStorage day_old_page) =
     Some (Stringified \<lparr>url = ''https://loliapi.com/acg/?seed=7'', timestamp = 0\<rparr>) \<and>
   fst (Date_now day_old_page) - 0 \<le> 86400000 \<and>
   getCachedBackground day_old_page =
     (Some ''https://loliapi.com/acg/?seed=7'', day_old_page\<lparr>ticks := Suc (ticks day_old_page)\<rparr>)"
  using persisted_expiry [of expired_page "\<lparr>url = ''https://loliapi.com/acg/?seed=7'', timestamp = 0\<rparr>"]
    persisted_expiry [of day_old_page "\<lparr>url = ''https://loliapi.com/acg/?seed=7'', timestamp = 0\<rparr>"]
  by (simp add: expired_page_def day_old_page_def cached_page_def page_def Date_now_def getSessionBackground_eq)

subsection \<open>The order of the tiers\<close>

text \<open>
  C7. If the in-memory tier holds a URL, initialization sets \<open>backgroundUrl\<close> to it and
  does nothing else: no preload request, no storage access, no clock reading. Otherwise,
  if the session tier holds a URL, initialization sets \<open>backgroundUrl\<close> and the in-memory
  tier to it and does nothing else.
\<close>

theorem initBackground_tier_order:
  "(truthy (globalBackgroundUrl w) \<longrightarrow>
      initBackground w = Fulfilled (w\<lparr>backgroundUrl := string_of (globalBackgroundUrl w)\<rparr>)) \<and>
   (\<not> truthy (globalBackgroundUrl w) \<and> truthy (getSessionBackground w) \<longrightarrow>
      initBackground w =
        Fulfilled (w\<lparr>backgroundUrl := string_of (getSessionBackground w),
                     globalBackgroundUrl := getSessionBackground w\<rparr>))"
  by (auto simp add: initBackground_global initBackground_session truthy_Some_string_of)

theorem initBackground_tier_order_witness:
  "truthy (globalBackgroundUrl memory_page) \<and>
   initBackground memory_page =
     Fulfilled (memory_page\<lparr>backgroundUrl := ''https://loliapi.com/acg/?seed=7''\<rparr>) \<and>
   \<not> truthy (globalBackgroundUrl locked_offline_page) \<and>
   truthy (getSessionBackground locked_offline_page) \<and>
   initBackground locked_offline_page =
     Fulfilled (locked_offline_page\<lparr>backgroundUrl := ''https://loliapi.com/acg/?seed=7'',
                  globalBackgroundUrl := Some ''https://loliapi.com/acg/?seed=7''\<rparr>)"
  using initBackground_tier_order [of memory_page] initBackground_tier_order [of locked_offline_page]
  by (simp add: memory_page_def offline_page_def locked_offline_page_def locked_page_def page_def
      getSessionBackground_eq)

subsection \<open>Storage failures\<close>

text \<open>
  C8. A session read whose \<^verbatim>\<open>getItem\<close> throws returns null. A persisted read whose
  \<^verbatim>\<open>getItem\<close> throws, or whose text does not parse, returns null and changes nothing.
  A session write whose \<^verbatim>\<open>setItem\<close> throws leaves everything as it was but for the
  message on the console; so does a persisted write, which has also read the clock.
\<close>

theorem storage_failures_swallowed:
  "(getItem (sessionStorage w) = Inl e \<longrightarrow> getSessionBackground w = None) \<and>
   (getItem (localStorage w) = Inl e \<longrightarrow> getCachedBackground w = (None, w)) \<and>
   (item (localStorage w) = Some t \<and> JSON_parse t = Inl e \<longrightarrow>
      getCachedBackground w = (None, w)) \<and>
   (has_window w \<and> setItem (sessionStorage w) u = Inl e \<longrightarrow>
      setSessionBackground u w =
        w\<lparr>console := console w @ [''Failed to set session background:'']\<rparr>) \<and>
   (has_window w \<and>
    setItem (localStorage w) (JSON_stringify \<lparr>url = u, timestamp = fst (Date_now w)\<rparr>) = Inl e \<longrightarrow>
      setCachedBackground u w =
        w\<lparr>ticks := Suc (ticks w), console := console w @ [''Failed to cache background:'']\<rparr>)"
proof (intro conjI impI)
  assume "getItem (sessionStorage w) = Inl e"
  then show "getSessionBackground w = None" by (simp add: getSessionBackground_def)
next
  assume "getItem (localStorage w) = Inl e"
  then show "getCachedBackground w = (None, w)" by (simp add: getCachedBackground_def)
next
  assume "item (localStorage w) = Some t \<and> JSON_parse t = Inl e"
  then show "getCachedBackground w = (None, w)"
    by (cases t) (simp_all add: getCachedBackground_eq)
next
  assume "has_window w \<and> setItem (sessionStorage w) u = Inl e"
  then show "setSessionBackground u w =
        w\<lparr>console := console w @ [''Failed to set session background:'']\<rparr>"
    by (simp add: setSessionBackground_def)
next
  assume "has_window w \<and>
    setItem (localStorage w) (JSON_stringify \<lparr>url = u, timestamp = fst (Date_now w)\<rparr>) = Inl e"
  then show "setCachedBackground u w =
        w\<lparr>ticks := Suc (ticks w), console := console w @ [''Failed to cache background:'']\<rparr>"
    by (simp add: setCachedBackground_def Date_now_def setItem_def split: if_splits)
qed

theorem storage_failures_swallowed_witness:
  "getItem (sessionStorage blocked_page) = Inl SecurityError \<and>
   getSessionBackground blocked_page = None \<and>
   getItem (localStorage blocked_page) = Inl SecurityError \<and>
   getCachedBackground blocked_page = (None, blocked_page) \<and>
   item (localStorage garbled_page) = Some (Malformed ''{url:'') \<and>
   JSON_parse (Malformed ''{url:'') = Inl SyntaxError \<and>
   getCachedBackground garbled_page = (None, garbled_page) \<and>
   has_window private_page \<and>
   setItem (sessionStorage private_page) ''https://loliapi.com/acg/?seed=8'' = Inl QuotaExceededError \<and>
   setSessionBackground ''https://loliapi.com/acg/?seed=8'' private_page =
     private_page\<lparr>console := [''Failed to set session background:'']\<rparr> \<and>
   setItem (localStorage private_page)
     (JSON_stringify \<lparr>url = ''https://loliapi.com/acg/?seed=8'', timestamp = fst (Date_now private_page)\<rparr>)
     = Inl QuotaExceededError \<and>
   setCachedBackground ''https://loliapi.com/acg/?seed=8'' private_page =
     private_page\<lparr>ticks := 1, console := [''Failed to cache background:'']\<rparr>"
  using storage_failures_swallowed [of blocked_page SecurityError "Malformed ''{url:''"
      "''https://loliapi.com/acg/?seed=8''"]
    storage_failures_swallowed [of garbled_page SyntaxError "Malformed ''{url:''"
      "''https://loliapi.com/acg/?seed=8''"]
    storage_failures_swallowed [of private_page QuotaExceededError "Malformed ''{url:''"
      "''https://loliapi.com/acg/?seed=8''"]
  by (simp add: blocked_page_def garbled_page_def private_page_def page_def getItem_def
      setItem_def)

subsection \<open>Without a window\<close>

text \<open>
  C9. When \<^verbatim>\<open>window\<close> is undefined, both reads return null and both writes return
  without touching anything: the storages, and every other part of the world, are as
  before. The accessors have no error result, so none of them throws.
\<close>

theorem no_window_accessors:
  "\<not> has_window w \<Longrightarrow>
     getSessionBackground w = None \<and>
     getCachedBackground w = (None, w) \<and>
     setSessionBackground u w = w \<and>
     setCachedBackground u w = w"
  by (simp add: getSessionBackground_def getCachedBackground_def
      setSessionBackground_def setCachedBackground_def)

theorem no_window_accessors_witness:
  "\<not> has_window server_page \<and>
   item (sessionStorage server_page) = Some ''https://loliapi.com/acg/?seed=7'' \<and>
   getSessionBackground server_page = None \<and>
   getCachedBackground server_page = (None, server_page) \<and>
   setSessionBackground ''https://loliapi.com/acg/?seed=8'' server_page = server_page \<and>
   setCachedBackground ''https://loliapi.com/acg/?seed=8'' server_page = server_page"
  using no_window_accessors [of server_page "''https://loliapi.com/acg/?seed=8''"]
  by (simp add: server_page_def locked_page_def page_def)

subsection \<open>The loaded flag\<close>

text \<open>
  C10. A provider starts with \<open>isLoaded\<close> false. \<^verbatim>\<open>setLoaded\<close> sets it and changes
  nothing else. Initialization leaves it as it is. A step that takes it from false to true
  is \<^verbatim>\<open>setLoaded\<close>; a step that takes it from true to false is a
  \<^verbatim>\<open>refreshBackground\<close> whose preload validated the new URL.
\<close>

theorem isLoaded_transitions:
  "\<not> isLoaded (BackgroundProvider w) \<and>
   setLoaded w = w\<lparr>isLoaded := True\<rparr> \<and>
   isLoaded (final (initBackground w)) = isLoaded w \<and>
   (\<not> isLoaded w \<and> isLoaded (step a w) \<longrightarrow> a = SetLoaded) \<and>
   (isLoaded w \<and> \<not> isLoaded (step a w) \<longrightarrow>
      a = RefreshBackground \<and>
      validates (fst (fetchNewBackground w)) (snd (fetchNewBackground w)))"
proof (intro conjI impI)
  show "\<not> isLoaded (BackgroundProvider w)" by (simp add: BackgroundProvider_def)
  show "setLoaded w = w\<lparr>isLoaded := True\<rparr>" by (simp add: setLoaded_def setIsLoaded_def)
  show "isLoaded (final (initBackground w)) = isLoaded w" by (rule initBackground_isLoaded)
next
  assume "\<not> isLoaded w \<and> isLoaded (step a w)"
  then show "a = SetLoaded"
    by (cases a) (auto simp add: initBackground_isLoaded refreshBackground_isLoaded)
next
  assume h: "isLoaded w \<and> \<not> isLoaded (step a w)"
  then show "a = RefreshBackground"
    by (cases a) (auto simp add: initBackground_isLoaded setLoaded_def setIsLoaded_def)
  with h show "validates (fst (fetchNewBackground w)) (snd (fetchNewBackground w))"
    by (simp add: refreshBackground_isLoaded)
qed

theorem isLoaded_transitions_witness:
  "\<not> isLoaded (BackgroundProvider shown_page) \<and>
   \<not> isLoaded page \<and> isLoaded (step SetLoaded page) \<and>
   isLoaded shown_page \<and> \<not> isLoaded (step RefreshBackground shown_page) \<and>
   validates (fst (fetchNewBackground shown_page)) (snd (fetchNewBackground shown_page)) \<and>
   isLoaded (final (initBackground shown_page))"
proof -
  have a: "\<not> isLoaded page" by (simp add: page_def)
  have b: "isLoaded (step SetLoaded page)" by (simp add: setLoaded_def setIsLoaded_def)
  have c: "isLoaded shown_page" by (simp add: shown_page_def)
  have d: "\<not> isLoaded (step RefreshBackground shown_page)"
    by (simp add: shown_page_def page_def refreshBackground_eq Let_def
        setSessionBackground_eq setCachedBackground_eq)
  note t = isLoaded_transitions [of shown_page RefreshBackground]
  from t c d
  have v: "validates (fst (fetchNewBackground shown_page)) (snd (fetchNewBackground shown_page))"
    by blast
  from t c have e: "\<not> isLoaded (BackgroundProvider shown_page)"
    and f: "isLoaded (final (initBackground shown_page))" by simp_all
  from a b c d v e f show ?thesis by blast
qed

end
